theory Spec2Isabelle
  imports Complex_Main
begin

section \<open>Data model\<close>

text \<open>
  The object literal that \<^verbatim>\<open>bot.js\<close> hands to \<^verbatim>\<open>scheduler.addReminder\<close>. The two dates are
  stored as ISO strings and read back with \<^verbatim>\<open>new Date(..).getTime()\<close>; the model keeps the
  millisecond value itself. The JavaScript field \<^verbatim>\<open>type\<close> is called \<open>rtype\<close> here.
\<close>

record opts =
  guildId :: string
  channelId :: string
  rtype :: string
  deadline :: int
  remindAt :: int
  label :: string
  emoji :: string

text \<open>
  A stored reminder is \<^verbatim>\<open>{ id, ...opts }\<close>. The JavaScript field \<^verbatim>\<open>id\<close> is called \<open>rid\<close>
  here (\<open>id\<close> is the identity function of HOL).
\<close>

record reminder = opts +
  rid :: string

text \<open>
  The file \<^verbatim>\<open>data/reminders.json\<close>. It is either missing (\<open>None\<close>) or holds a text, seen
  as the sequence of its array elements, each of which is a well-formed record or a
  piece that is not JSON.
\<close>

datatype chunk = Rec reminder | Garbage

text \<open>The two closures that \<^verbatim>\<open>scheduleTimer\<close> passes to \<^verbatim>\<open>setTimeout\<close>.\<close>

datatype callback =
    Recheck reminder    \<comment> \<open>\<^verbatim>\<open>() => scheduleTimer(reminder, client)\<close>\<close>
  | Deliver reminder    \<comment> \<open>the async callback that sends the reminder\<close>

record timer =
  t_delay :: int
  t_callback :: callback

text \<open>What the environment observes: calls on the Discord client and console output.\<close>

datatype event =
    ChannelFetch string reminder   \<comment> \<open>\<^verbatim>\<open>client.channels.fetch(reminder.channelId)\<close>\<close>
  | ChannelSend reminder           \<comment> \<open>\<^verbatim>\<open>channel.send(..)\<close> with the embed of the reminder\<close>
  | ConsoleError string string     \<comment> \<open>\<^verbatim>\<open>Failed to send reminder <id>: <message>\<close>\<close>
  | ConsoleLog nat nat             \<comment> \<open>\<^verbatim>\<open>Restored <n> reminder(s), removed <m> expired.\<close>\<close>

text \<open>
  The state of the process and of its host: the file, the module-level map
  \<^verbatim>\<open>activeTimers\<close>, the timeouts the host has armed (by handle), the next handle the host
  gives out, and the events so far.
\<close>

record state =
  REMINDERS_FILE :: "chunk list option"
  activeTimers :: "string \<rightharpoonup> nat"
  pending :: "nat \<rightharpoonup> timer"
  nextHandle :: nat
  trace :: "event list"

section \<open>storage.js\<close>

text \<open>\<^verbatim>\<open>JSON.parse\<close> throws on the whole text as soon as one piece of it is not JSON.\<close>

fun JSON_parse :: "chunk list \<Rightarrow> reminder list option" where
  "JSON_parse [] = Some []"
| "JSON_parse (Garbage # cs) = None"
| "JSON_parse (Rec r # cs) =
     (case JSON_parse cs of None \<Rightarrow> None | Some rs \<Rightarrow> Some (r # rs))"

definition JSON_stringify :: "reminder list \<Rightarrow> chunk list" where
  "JSON_stringify rs = map Rec rs"

text \<open>
  \<^verbatim>\<open>try { return JSON.parse(fs.readFileSync(..)) } catch { return [] }\<close>: reading a missing
  file throws, parsing a corrupt one throws, and both give the empty array.
\<close>

definition loadReminders :: "state \<Rightarrow> reminder list" where
  "loadReminders s =
     (case REMINDERS_FILE s of
        None \<Rightarrow> []
      | Some cs \<Rightarrow> (case JSON_parse cs of None \<Rightarrow> [] | Some rs \<Rightarrow> rs))"

definition saveReminders :: "reminder list \<Rightarrow> state \<Rightarrow> state" where
  "saveReminders rs s = s\<lparr>REMINDERS_FILE := Some (JSON_stringify rs)\<rparr>"

definition storage_addReminder :: "reminder \<Rightarrow> state \<Rightarrow> state" where
  "storage_addReminder r s = saveReminders (loadReminders s @ [r]) s"

definition removeReminder :: "string \<Rightarrow> state \<Rightarrow> state" where
  "removeReminder i s = saveReminders (filter (\<lambda>r. rid r \<noteq> i) (loadReminders s)) s"

definition getRemindersForGuild :: "string \<Rightarrow> state \<Rightarrow> reminder list" where
  "getRemindersForGuild g s = filter (\<lambda>r. guildId r = g) (loadReminders s)"

definition getAllReminders :: "state \<Rightarrow> reminder list" where
  "getAllReminders s = loadReminders s"

section \<open>The host's timers\<close>

text \<open>
  \<^verbatim>\<open>setTimeout\<close> arms a timeout under a fresh handle and returns the handle;
  \<^verbatim>\<open>clearTimeout\<close> disarms the timeout of a handle.
\<close>

definition setTimeout :: "callback \<Rightarrow> int \<Rightarrow> state \<Rightarrow> nat \<times> state" where
  "setTimeout cb d s =
     (nextHandle s,
      s\<lparr>pending := (pending s)(nextHandle s \<mapsto> \<lparr>t_delay = d, t_callback = cb\<rparr>),
        nextHandle := Suc (nextHandle s)\<rparr>)"

definition clearTimeout :: "nat \<Rightarrow> state \<Rightarrow> state" where
  "clearTimeout h s = s\<lparr>pending := (pending s)(h := None)\<rparr>"

text \<open>
  Node runs a timeout after its delay, where a delay below 1 or above 2147483647
  counts as 1.
\<close>

definition host_delay :: "int \<Rightarrow> int" where
  "host_delay d = (if d < 1 \<or> 2147483647 < d then 1 else d)"

section \<open>scheduler.js\<close>

definition activeTimers_set :: "string \<Rightarrow> nat \<Rightarrow> state \<Rightarrow> state" where
  "activeTimers_set i h s = s\<lparr>activeTimers := (activeTimers s)(i \<mapsto> h)\<rparr>"

definition activeTimers_delete :: "string \<Rightarrow> state \<Rightarrow> state" where
  "activeTimers_delete i s = s\<lparr>activeTimers := (activeTimers s)(i := None)\<rparr>"

definition MAX_DELAY :: int where
  "MAX_DELAY = 2147483647"

text \<open>
  \<^verbatim>\<open>scheduleTimer\<close>, with the clock reading \<open>now\<close> and with the ceiling as a parameter;
  the source fixes the ceiling to \<open>MAX_DELAY\<close>. Every call of \<^verbatim>\<open>scheduleTimer\<close> reads the
  clock for itself: \<open>now\<close> is that reading, which a caller that has read the clock before
  cannot take to be its own.
\<close>

definition scheduleTimer_with :: "int \<Rightarrow> reminder \<Rightarrow> int \<Rightarrow> state \<Rightarrow> state" where
  "scheduleTimer_with M reminder now s =
     (let delay = remindAt reminder - now in
      if delay \<le> 0 then
        activeTimers_delete (rid reminder) (removeReminder (rid reminder) s)
      else if delay > M then
        (let (handle, s') = setTimeout (Recheck reminder) M s
         in activeTimers_set (rid reminder) handle s')
      else
        (let (handle, s') = setTimeout (Deliver reminder) delay s
         in activeTimers_set (rid reminder) handle s'))"

definition scheduleTimer :: "reminder \<Rightarrow> int \<Rightarrow> state \<Rightarrow> state" where
  "scheduleTimer = scheduleTimer_with MAX_DELAY"

text \<open>
  The \<^verbatim>\<open>finally\<close> block of the timeout callback: remove the record from the file and the
  handle from \<^verbatim>\<open>activeTimers\<close>.
\<close>

definition finally_block :: "reminder \<Rightarrow> state \<Rightarrow> state" where
  "finally_block reminder s =
     activeTimers_delete (rid reminder) (removeReminder (rid reminder) s)"

text \<open>
  What the calls inside the timeout callback do, as the environment decides:
  \<^verbatim>\<open>client.channels.fetch\<close> rejects, or resolves to no channel, or resolves to a channel;
  then reading the configuration or building the embed throws, or \<^verbatim>\<open>send\<close> is called and
  rejects or succeeds. What is thrown carries \<^verbatim>\<open>err.message\<close>.
\<close>

datatype outcome =
  FetchThrows string | NoChannel | BuildThrows string | SendThrows string | SendOk

text \<open>The \<^verbatim>\<open>try\<close> block together with its \<^verbatim>\<open>catch\<close>.\<close>

definition try_block :: "reminder \<Rightarrow> outcome \<Rightarrow> state \<Rightarrow> state" where
  "try_block reminder oc s =
     s\<lparr>trace := trace s @
        (case oc of
           FetchThrows m \<Rightarrow>
             [ChannelFetch (channelId reminder) reminder, ConsoleError (rid reminder) m]
         | NoChannel \<Rightarrow>
             [ChannelFetch (channelId reminder) reminder]
         | BuildThrows m \<Rightarrow>
             [ChannelFetch (channelId reminder) reminder, ConsoleError (rid reminder) m]
         | SendThrows m \<Rightarrow>
             [ChannelFetch (channelId reminder) reminder, ChannelSend reminder,
              ConsoleError (rid reminder) m]
         | SendOk \<Rightarrow>
             [ChannelFetch (channelId reminder) reminder, ChannelSend reminder])\<rparr>"

definition timeout_callback :: "reminder \<Rightarrow> outcome \<Rightarrow> state \<Rightarrow> state" where
  "timeout_callback reminder oc s = finally_block reminder (try_block reminder oc s)"

text \<open>
  The host runs the timeout of handle \<open>h\<close> at time \<open>now\<close>: the timeout is no longer armed,
  and its callback runs.
\<close>

definition timer_expires_with :: "int \<Rightarrow> nat \<Rightarrow> int \<Rightarrow> outcome \<Rightarrow> state \<Rightarrow> state" where
  "timer_expires_with M h now oc s =
     (case pending s h of
        None \<Rightarrow> s
      | Some t \<Rightarrow>
          (case t_callback t of
             Recheck reminder \<Rightarrow> scheduleTimer_with M reminder now (clearTimeout h s)
           | Deliver reminder \<Rightarrow> timeout_callback reminder oc (clearTimeout h s)))"

definition timer_expires :: "nat \<Rightarrow> int \<Rightarrow> outcome \<Rightarrow> state \<Rightarrow> state" where
  "timer_expires = timer_expires_with MAX_DELAY"

text \<open>
  \<^verbatim>\<open>addReminder\<close>; \<open>uuid\<close> is what \<^verbatim>\<open>randomUUID()\<close> returns, and the id is its first eight
  characters.
\<close>

definition addReminder :: "opts \<Rightarrow> string \<Rightarrow> int \<Rightarrow> state \<Rightarrow> string \<times> state" where
  "addReminder opts uuid now s =
     (let i = take 8 uuid;
          reminder = \<lparr>guildId = guildId opts, channelId = channelId opts, rtype = rtype opts,
                      deadline = deadline opts, remindAt = remindAt opts, label = label opts,
                      emoji = emoji opts, rid = i\<rparr>
      in (i, scheduleTimer reminder now (storage_addReminder reminder s)))"

definition cancelReminder :: "string \<Rightarrow> string \<Rightarrow> state \<Rightarrow> bool \<times> state" where
  "cancelReminder g i s =
     (case find (\<lambda>r. rid r = i) (getRemindersForGuild g s) of
        None \<Rightarrow> (False, s)
      | Some reminder \<Rightarrow>
          (True,
           removeReminder i
             (case activeTimers s i of
                None \<Rightarrow> s
              | Some h \<Rightarrow> activeTimers_delete i (clearTimeout h s))))"

definition getReminders :: "string \<Rightarrow> int \<Rightarrow> state \<Rightarrow> reminder list" where
  "getReminders g now s = filter (\<lambda>r. remindAt r > now) (getRemindersForGuild g s)"

text \<open>
  The loop of \<^verbatim>\<open>restoreReminders\<close> over the records read at its start, with the two
  counters and the state. The test of the loop compares with \<open>now\<close>, the date taken before
  the loop. Each call of \<^verbatim>\<open>scheduleTimer\<close> reads the clock again: \<open>clk\<close> is the last reading
  (\<open>now\<close> at first), and the next one is later by the head of \<open>ticks\<close>, the milliseconds
  that have passed in between (none when the list is exhausted).
\<close>

fun restore_loop ::
  "reminder list \<Rightarrow> int \<Rightarrow> int \<Rightarrow> nat list \<Rightarrow> nat \<times> nat \<times> state \<Rightarrow> nat \<times> nat \<times> state" where
  "restore_loop [] now clk ticks acc = acc"
| "restore_loop (reminder # rest) now clk ticks (restored, expired, s) =
     (if remindAt reminder \<le> now then
        restore_loop rest now clk ticks
          (restored, Suc expired, removeReminder (rid reminder) s)
      else
        (let clk' = clk + (case ticks of [] \<Rightarrow> 0 | t # ts \<Rightarrow> int t)
         in restore_loop rest now clk' (tl ticks)
              (Suc restored, expired, scheduleTimer reminder clk' s)))"

text \<open>
  What a call of \<^verbatim>\<open>restoreReminders\<close> could evaluate to: \<^verbatim>\<open>undefined\<close>, or an object with
  the two counters.
\<close>

datatype js_value = Undefined | Counts nat nat

text \<open>
  \<^verbatim>\<open>restoreReminders\<close> has no \<^verbatim>\<open>return\<close>: it writes the two counters in its console line
  and evaluates to \<^verbatim>\<open>undefined\<close>.
\<close>

definition restoreReminders :: "int \<Rightarrow> nat list \<Rightarrow> state \<Rightarrow> js_value \<times> state" where
  "restoreReminders now ticks s =
     (let (restored, expired, s') = restore_loop (getAllReminders s) now now ticks (0, 0, s)
      in (Undefined, s'\<lparr>trace := trace s' @ [ConsoleLog restored expired]\<rparr>))"

section \<open>bot.js: the remind command\<close>

datatype reply =
    CouldntParse          \<comment> \<open>\<^verbatim>\<open>Couldn't parse that date.\<close>\<close>
  | InThePast             \<comment> \<open>\<^verbatim>\<open>That reminder time is in the past!\<close>\<close>
  | ReminderSet string    \<comment> \<open>the embed \<^verbatim>\<open>Reminder Set!\<close> with the id\<close>

datatype js_error = RangeError

text \<open>A \<^verbatim>\<open>Date\<close> holds a time value of at most 8.64e15 ms either side of the epoch, or is invalid.\<close>

definition valid_time :: "int \<Rightarrow> bool" where
  "valid_time t = (\<bar>t\<bar> \<le> 8640000000000000)"

definition labels :: "string \<Rightarrow> string" where
  "labels t = (if t = ''submission'' then ''Submission''
               else if t = ''voting'' then ''Voting'' else ''Submission & Voting'')"

text \<open>The emojis are written by their names.\<close>

definition emojis :: "string \<Rightarrow> string" where
  "emojis t = (if t = ''submission'' then '':outbox_tray:''
               else if t = ''voting'' then '':ballot_box:''
               else '':outbox_tray::ballot_box:'')"

text \<open>
  The branch of the interaction handler for \<^verbatim>\<open>/remind\<close>. \<open>parsed\<close> is the result of
  \<^verbatim>\<open>parseDateTime\<close> (\<open>None\<close> for \<^verbatim>\<open>null\<close>), \<open>remind_before\<close> the optional integer option and
  \<open>notify\<close> the \<^verbatim>\<open>notifyChannelId\<close> of the guild's configuration, when there is one. An invalid
  \<^verbatim>\<open>remindAt\<close> compares false with every date and makes \<^verbatim>\<open>toISOString\<close> throw. \<open>now\<close> is
  the date the handler compares with, and \<open>tick\<close> the milliseconds that pass until
  \<^verbatim>\<open>scheduleTimer\<close> reads the clock.
\<close>

definition remind_handler ::
  "string \<Rightarrow> string \<Rightarrow> string option \<Rightarrow> string \<Rightarrow> int option \<Rightarrow> int option \<Rightarrow> string \<Rightarrow> int
     \<Rightarrow> nat \<Rightarrow> state \<Rightarrow> (js_error + reply) \<times> state" where
  "remind_handler g interaction_channel notify t parsed remind_before uuid now tick s =
     (let remindBefore = (case remind_before of None \<Rightarrow> 60 | Some n \<Rightarrow> n) in
      case parsed of
        None \<Rightarrow> (Inr CouldntParse, s)
      | Some dl \<Rightarrow>
          (let remindAt' = dl - remindBefore * 60000 in
           if valid_time remindAt' \<and> remindAt' \<le> now then (Inr InThePast, s)
           else if \<not> valid_time remindAt' then (Inl RangeError, s)
           else
             (let channel = (case notify of
                               None \<Rightarrow> interaction_channel
                             | Some c \<Rightarrow> if c = [] then interaction_channel else c);
                  (reminderId, s') =
                    addReminder \<lparr>guildId = g, channelId = channel, rtype = t, deadline = dl,
                                 remindAt = remindAt', label = labels t, emoji = emojis t\<rparr>
                      uuid (now + int tick) s
              in (Inr (ReminderSet reminderId), s'))))"

section \<open>Chained timeouts\<close>

text \<open>
  The timeouts that one call of \<^verbatim>\<open>scheduleTimer\<close> leads to. After the call, the handle
  recorded for the reminder is looked up; when its timeout carries the rescheduling
  closure, the host runs it once its delay has passed, late by the head of \<open>lates\<close> (on
  time when the list is exhausted), which calls \<^verbatim>\<open>scheduleTimer\<close> again at that time.
  The result lists the delays of the timeouts armed, in order, with the final state.
\<close>

function chain_with :: "int \<Rightarrow> reminder \<Rightarrow> int \<Rightarrow> nat list \<Rightarrow> state \<Rightarrow> int list \<times> state" where
  "chain_with M reminder now lates s =
     (let s1 = scheduleTimer_with M reminder now s in
      case activeTimers s1 (rid reminder) of
        None \<Rightarrow> ([], s1)
      | Some h \<Rightarrow>
          (case pending s1 h of
             None \<Rightarrow> ([], s1)
           | Some t \<Rightarrow>
               (case t_callback t of
                  Deliver r \<Rightarrow> ([t_delay t], s1)
                | Recheck r \<Rightarrow>
                    (let late = (case lates of [] \<Rightarrow> 0 | l # ls \<Rightarrow> int l);
                         (hops, s2) =
                           chain_with M r (now + host_delay (t_delay t) + late) (tl lates)
                             (clearTimeout h s1)
                     in (t_delay t # hops, s2)))))"
  by pat_completeness auto

text \<open>
  The chain ends: a rescheduling timeout is only armed while the remaining delay is
  positive, and the host runs it at least one millisecond later.
\<close>

lemma scheduleTimer_with_recheck:
  assumes "activeTimers (scheduleTimer_with M r now s) (rid r) = Some h"
    and "pending (scheduleTimer_with M r now s) h = Some t"
    and "t_callback t = Recheck r'"
  shows "r' = r \<and> t_delay t = M \<and> M < remindAt r - now \<and> 0 < remindAt r - now"
  using assms
  by (auto simp: scheduleTimer_with_def Let_def setTimeout_def activeTimers_set_def
      activeTimers_delete_def removeReminder_def saveReminders_def split: if_splits)

lemma host_delay_pos: "1 \<le> host_delay d"
  by (simp add: host_delay_def)

termination chain_with
proof (relation "measure (\<lambda>(M, r, now, lates, s). nat (remindAt r - now))", goal_cases)
  case 1
  show ?case by simp
next
  case (2 M reminder now lates s s1 h t r late)
  from 2 have *: "r = reminder \<and> t_delay t = M \<and> M < remindAt reminder - now
      \<and> 0 < remindAt reminder - now"
    using scheduleTimer_with_recheck [of M reminder now s h t r] by simp
  have "1 \<le> host_delay (t_delay t)" by (rule host_delay_pos)
  moreover have "0 \<le> late" using 2 by (simp split: list.splits)
  ultimately show ?case using * by simp
qed

declare chain_with.simps [simp del]

section \<open>Example data\<close>

text \<open>The state of a fresh process with no file on disk.\<close>

definition s0 :: state where
  "s0 = \<lparr>REMINDERS_FILE = None, activeTimers = Map.empty, pending = Map.empty,
          nextHandle = 0, trace = []\<rparr>"

definition remA :: reminder where
  "remA = \<lparr>guildId = ''g1'', channelId = ''c1'', rtype = ''submission'', deadline = 9,
            remindAt = 7, label = ''Submission'', emoji = '':outbox_tray:'', rid = ''0a0a0a0a''\<rparr>"

definition remB :: reminder where
  "remB = \<lparr>guildId = ''g1'', channelId = ''c1'', rtype = ''voting'', deadline = 20,
            remindAt = 13, label = ''Voting'', emoji = '':ballot_box:'', rid = ''1b9d6bcd''\<rparr>"

text \<open>Two guilds holding a reminder of the same id, the first one armed.\<close>

definition s_two_guilds :: state where
  "s_two_guilds = s0\<lparr>REMINDERS_FILE := Some [Rec remA, Rec (remA\<lparr>guildId := ''g2''\<rparr>), Rec remB],
      activeTimers := [''0a0a0a0a'' \<mapsto> 4], 
      pending := [4 \<mapsto> \<lparr>t_delay = 3, t_callback = Deliver remA\<rparr>],
      nextHandle := 5\<rparr>"

text \<open>A file whose records are not in the order of their \<^verbatim>\<open>remindAt\<close>.\<close>

definition s_unsorted :: state where
  "s_unsorted = s0\<lparr>REMINDERS_FILE := Some [Rec remB, Rec remA]\<rparr>"

text \<open>A state in which the terminal timeout of \<open>remB\<close> is armed.\<close>

definition s_armed :: state where
  "s_armed = s0\<lparr>REMINDERS_FILE := Some [Rec remA, Rec remB],
      activeTimers := [''1b9d6bcd'' \<mapsto> 2],
      pending := [2 \<mapsto> \<lparr>t_delay = 3, t_callback = Deliver remB\<rparr>],
      nextHandle := 3\<rparr>"

text \<open>
  Counting, in a trace, the delivery attempts for a reminder (the callback starts by
  fetching the channel) and the messages sent for it.
\<close>

definition attempts :: "reminder \<Rightarrow> event list \<Rightarrow> nat" where
  "attempts r es = length (filter (\<lambda>e. e = ChannelFetch (channelId r) r) es)"

definition sends :: "reminder \<Rightarrow> event list \<Rightarrow> nat" where
  "sends r es = length (filter (\<lambda>e. e = ChannelSend r) es)"

text \<open>The file found at a restart: \<open>remA\<close> is due at 7 and \<open>remB\<close> at 13.\<close>

definition s_restart :: state where
  "s_restart = s0\<lparr>REMINDERS_FILE := Some [Rec remA, Rec remB]\<rparr>"

text \<open>The same file with a piece between the two records that is not JSON.\<close>

definition s_corrupt :: state where
  "s_corrupt = s0\<lparr>REMINDERS_FILE := Some [Rec remA, Garbage, Rec remB]\<rparr>"

text \<open>Two registrations, and two values of \<^verbatim>\<open>randomUUID()\<close> that agree on their first eight characters.\<close>

definition opts_at7 :: opts where
  "opts_at7 = \<lparr>guildId = ''g2'', channelId = ''c2'', rtype = ''voting'', deadline = 9,
                 remindAt = 7, label = ''Voting'', emoji = '':ballot_box:''\<rparr>"

definition opts_at50 :: opts where
  "opts_at50 = \<lparr>guildId = ''g2'', channelId = ''c2'', rtype = ''submission'', deadline = 60,
                   remindAt = 50, label = ''Submission'', emoji = '':outbox_tray:''\<rparr>"

definition uuid1 :: string where
  "uuid1 = ''1b9d6bcd-bbfd-4b2d-9b5d-ab8dfbbd4bed''"

definition uuid2 :: string where
  "uuid2 = ''1b9d6bcd-0c3e-4f7a-8d21-5e6f7a8b9c0d''"



section \<open>Facts about the store\<close>

lemma JSON_parse_stringify: "JSON_parse (JSON_stringify rs) = Some rs"
  by (induction rs) (simp_all add: JSON_stringify_def)

lemma loadReminders_saveReminders: "loadReminders (saveReminders rs s) = rs"
  by (simp add: loadReminders_def saveReminders_def JSON_parse_stringify)

lemma loadReminders_removeReminder:
  "loadReminders (removeReminder i s) = filter (\<lambda>r. rid r \<noteq> i) (loadReminders s)"
  by (simp add: removeReminder_def loadReminders_saveReminders)

lemma loadReminders_activeTimers_delete:
  "loadReminders (activeTimers_delete i s) = loadReminders s"
  by (simp add: loadReminders_def activeTimers_delete_def)

lemma saveReminders_twice: "saveReminders a (saveReminders b s) = saveReminders a s"
  by (simp add: saveReminders_def)

lemma removeReminder_twice: "removeReminder i (removeReminder i s) = removeReminder i s"
proof -
  have "removeReminder i (removeReminder i s) =
      saveReminders (filter (\<lambda>r. rid r \<noteq> i) (loadReminders (removeReminder i s)))
        (removeReminder i s)"
    by (rule removeReminder_def)
  also have "\<dots> = saveReminders (filter (\<lambda>r. rid r \<noteq> i) (loadReminders s)) (removeReminder i s)"
    by (simp add: loadReminders_removeReminder)
  also have "\<dots> = removeReminder i s"
    by (simp add: removeReminder_def saveReminders_twice)
  finally show ?thesis .
qed

lemma activeTimers_delete_twice:
  "activeTimers_delete i (activeTimers_delete i s) = activeTimers_delete i s"
  by (simp add: activeTimers_delete_def)

lemma removeReminder_activeTimers_delete:
  "removeReminder i (activeTimers_delete j s) = activeTimers_delete j (removeReminder i s)"
  by (simp add: removeReminder_def activeTimers_delete_def saveReminders_def loadReminders_def)

section \<open>Cleanup after a fired reminder\<close>

text \<open>
  C9. Deleting the record and clearing the handle of a fired reminder is idempotent: for
  every state and every reminder, running the cleanup of the timeout callback twice gives
  the state that running it once gives (the file, \<^verbatim>\<open>activeTimers\<close>, the armed timeouts and
  the events alike), and so does \<^verbatim>\<open>removeReminder\<close> on its own.
\<close>

theorem finally_block_idempotent:
  "finally_block r (finally_block r s) = finally_block r s
   \<and> removeReminder i (removeReminder i s) = removeReminder i s"
  by (simp add: finally_block_def removeReminder_activeTimers_delete removeReminder_twice
      activeTimers_delete_twice)

section \<open>Delay chaining\<close>

lemma scheduleTimer_with_expired:
  "remindAt r - now \<le> 0 \<Longrightarrow>
   scheduleTimer_with M r now s = activeTimers_delete (rid r) (removeReminder (rid r) s)"
  by (simp add: scheduleTimer_with_def)

lemma scheduleTimer_with_terminal:
  "0 < remindAt r - now \<Longrightarrow> remindAt r - now \<le> M \<Longrightarrow>
   scheduleTimer_with M r now s =
     s\<lparr>pending := (pending s)(nextHandle s \<mapsto> \<lparr>t_delay = remindAt r - now, t_callback = Deliver r\<rparr>),
       nextHandle := Suc (nextHandle s),
       activeTimers := (activeTimers s)(rid r \<mapsto> nextHandle s)\<rparr>"
  by (simp add: scheduleTimer_with_def setTimeout_def activeTimers_set_def)

lemma scheduleTimer_with_intermediate:
  "0 < remindAt r - now \<Longrightarrow> M < remindAt r - now \<Longrightarrow>
   scheduleTimer_with M r now s =
     s\<lparr>pending := (pending s)(nextHandle s \<mapsto> \<lparr>t_delay = M, t_callback = Recheck r\<rparr>),
       nextHandle := Suc (nextHandle s),
       activeTimers := (activeTimers s)(rid r \<mapsto> nextHandle s)\<rparr>"
  by (simp add: scheduleTimer_with_def setTimeout_def activeTimers_set_def)

lemma chain_with_expired:
  "remindAt r - now \<le> 0 \<Longrightarrow>
   chain_with M r now lates s = ([], scheduleTimer_with M r now s)"
  by (subst chain_with.simps)
     (simp add: scheduleTimer_with_expired activeTimers_delete_def)

lemma chain_with_terminal:
  "0 < remindAt r - now \<Longrightarrow> remindAt r - now \<le> M \<Longrightarrow>
   chain_with M r now lates s = ([remindAt r - now], scheduleTimer_with M r now s)"
  by (subst chain_with.simps) (simp add: scheduleTimer_with_terminal)

lemma chain_with_intermediate:
  "0 < remindAt r - now \<Longrightarrow> M < remindAt r - now \<Longrightarrow>
   chain_with M r now lates s =
     (let late = (case lates of [] \<Rightarrow> 0 | l # ls \<Rightarrow> int l);
          (hops, s2) = chain_with M r (now + host_delay M + late) (tl lates)
                         (clearTimeout (nextHandle s) (scheduleTimer_with M r now s))
      in (M # hops, s2))"
  by (subst chain_with.simps) (simp add: scheduleTimer_with_intermediate)

lemma ceiling_step:
  fixes D M :: int
  assumes "0 < M" "D' \<le> D - M"
  shows "nat \<lceil>real_of_int D' / real_of_int M\<rceil> + 1 \<le> nat \<lceil>real_of_int D / real_of_int M\<rceil> \<or> D \<le> 0"
proof (cases "D \<le> 0")
  case True then show ?thesis by simp
next
  case False
  have "\<lceil>real_of_int D' / real_of_int M\<rceil> \<le> \<lceil>real_of_int (D - M) / real_of_int M\<rceil>"
    using assms by (intro ceiling_mono divide_right_mono) simp_all
  also have "real_of_int (D - M) / real_of_int M = real_of_int D / real_of_int M - 1"
    using assms by (simp add: field_simps)
  also have "\<lceil>real_of_int D / real_of_int M - 1\<rceil> = \<lceil>real_of_int D / real_of_int M\<rceil> - 1"
    by simp
  finally have le: "\<lceil>real_of_int D' / real_of_int M\<rceil> \<le> \<lceil>real_of_int D / real_of_int M\<rceil> - 1" .
  have "0 < real_of_int D / real_of_int M" using False assms by simp
  then have "0 < \<lceil>real_of_int D / real_of_int M\<rceil>" by simp
  with le show ?thesis by linarith
qed

lemma chain_with_bound:
  assumes M: "0 < M" "M \<le> 2147483647"
  shows "length (fst (chain_with M r now lates s))
           \<le> nat \<lceil>real_of_int (remindAt r - now) / real_of_int M\<rceil>"
proof (induction "nat (remindAt r - now)" arbitrary: now lates s rule: less_induct)
  case less
  let ?D = "remindAt r - now"
  consider "?D \<le> 0" | "0 < ?D" "?D \<le> M" | "0 < ?D" "M < ?D" by linarith
  then show ?case
  proof cases
    case 1
    then show ?thesis by (simp add: chain_with_expired)
  next
    case 2
    then have "0 < real_of_int ?D / real_of_int M" using M by simp
    then have "0 < \<lceil>real_of_int ?D / real_of_int M\<rceil>" by simp
    then have "1 \<le> nat \<lceil>real_of_int ?D / real_of_int M\<rceil>" by linarith
    moreover have "length (fst (chain_with M r now lates s)) = 1"
      using 2 by (simp add: chain_with_terminal)
    ultimately show ?thesis by (simp only:)
  next
    case 3
    define late where "late = (case lates of [] \<Rightarrow> 0 | l # ls \<Rightarrow> int l)"
    define now' where "now' = now + host_delay M + late"
    define s' where "s' = clearTimeout (nextHandle s) (scheduleTimer_with M r now s)"
    have late: "0 \<le> late" by (simp add: late_def split: list.splits)
    have hd: "host_delay M = M" using M by (simp add: host_delay_def)
    have lt: "nat (remindAt r - now') < nat ?D" using 3 M late hd by (simp add: now'_def)
    have IH: "length (fst (chain_with M r now' (tl lates) s'))
           \<le> nat \<lceil>real_of_int (remindAt r - now') / real_of_int M\<rceil>"
      by (rule less [OF lt])
    have eq: "fst (chain_with M r now lates s) = M # fst (chain_with M r now' (tl lates) s')"
      using 3 by (simp add: chain_with_intermediate Let_def late_def now'_def s'_def
          split: prod.splits)
    have "remindAt r - now' \<le> ?D - M" using late hd by (simp add: now'_def)
    from ceiling_step [OF M(1) this] 3
    have "nat \<lceil>real_of_int (remindAt r - now') / real_of_int M\<rceil> + 1
            \<le> nat \<lceil>real_of_int ?D / real_of_int M\<rceil>" by simp
    with IH eq show ?thesis by simp
  qed
qed


lemma timer_expires_with_recheck:
  "pending s h = Some \<lparr>t_delay = d, t_callback = Recheck r\<rparr> \<Longrightarrow>
   timer_expires_with M h now oc s = scheduleTimer_with M r now (clearTimeout h s)"
  by (simp add: timer_expires_with_def)

lemma chain_with_intermediate_fst:
  "0 < remindAt r - now \<Longrightarrow> M < remindAt r - now \<Longrightarrow>
   fst (chain_with M r now lates s) =
     M # fst (chain_with M r (now + host_delay M + (case lates of [] \<Rightarrow> 0 | l # ls \<Rightarrow> int l))
               (tl lates) (clearTimeout (nextHandle s) (scheduleTimer_with M r now s)))"
  by (simp add: chain_with_intermediate Let_def split: prod.splits)

lemma chain_13_5:
  assumes "remindAt r - now = 13"
  shows "fst (chain_with 5 r now [] s) = [5, 5, 3]"
proof -
  define now1 where "now1 = now + host_delay 5 + (case ([]::nat list) of [] \<Rightarrow> 0 | l # ls \<Rightarrow> int l)"
  define now2 where "now2 = now1 + host_delay 5 + (case ([]::nat list) of [] \<Rightarrow> 0 | l # ls \<Rightarrow> int l)"
  have d1: "remindAt r - now1 = 8" using assms by (simp add: now1_def host_delay_def)
  have d2: "remindAt r - now2 = 3" using d1 by (simp add: now2_def host_delay_def)
  have 1: "fst (chain_with 5 r now [] s1) = 5 # fst (chain_with 5 r now1 (tl [])
      (clearTimeout (nextHandle s1) (scheduleTimer_with 5 r now s1)))" for s1
    unfolding now1_def using assms by (intro chain_with_intermediate_fst) simp_all
  have 2: "fst (chain_with 5 r now1 [] s1) = 5 # fst (chain_with 5 r now2 (tl [])
      (clearTimeout (nextHandle s1) (scheduleTimer_with 5 r now1 s1)))" for s1
    unfolding now2_def using d1 by (intro chain_with_intermediate_fst) simp_all
  have 3: "fst (chain_with 5 r now2 [] s1) = [3]" for s1
    using d2 by (simp add: chain_with_terminal)
  show ?thesis by (simp only: 1 2 3 list.sel)
qed

text \<open>
  C3. Delay chaining, for every ceiling \<open>M\<close> with \<open>0 < M \<le> 2147483647\<close> (the source's
  \<open>MAX_DELAY\<close> is one) and remaining delay \<open>D = remindAt - now\<close>:
  if \<open>D \<le> 0\<close>, \<^verbatim>\<open>scheduleTimer\<close> arms no timeout, the record is removed from the file and its
  handle forgotten, and nothing is delivered;
  if \<open>0 < D \<le> M\<close>, one timeout of delay \<open>D\<close> with the delivering callback is armed;
  if \<open>D > M\<close>, one timeout of delay \<open>M\<close> is armed whose callback, when the host runs it at
  a time \<open>now'\<close>, is \<^verbatim>\<open>scheduleTimer\<close> again at \<open>now'\<close>;
  the number of timeouts in the chain is at most \<open>ceil (D / M)\<close>, however late the host runs
  them; and with \<open>M = 5\<close>, \<open>D = 13\<close> and a punctual host the chain is 5, 5, 3.
\<close>

theorem delay_chaining:
  assumes "0 < M" and "M \<le> 2147483647"
  shows
   "(remindAt r - now \<le> 0 \<longrightarrow>
       pending (scheduleTimer_with M r now s) = pending s
       \<and> activeTimers (scheduleTimer_with M r now s) (rid r) = None
       \<and> (\<forall>x \<in> set (loadReminders (scheduleTimer_with M r now s)). rid x \<noteq> rid r)
       \<and> trace (scheduleTimer_with M r now s) = trace s
       \<and> fst (chain_with M r now lates s) = [])
    \<and> (0 < remindAt r - now \<and> remindAt r - now \<le> M \<longrightarrow>
       pending (scheduleTimer_with M r now s) =
         (pending s)(nextHandle s \<mapsto> \<lparr>t_delay = remindAt r - now, t_callback = Deliver r\<rparr>)
       \<and> activeTimers (scheduleTimer_with M r now s) (rid r) = Some (nextHandle s)
       \<and> fst (chain_with M r now lates s) = [remindAt r - now])
    \<and> (M < remindAt r - now \<longrightarrow>
       pending (scheduleTimer_with M r now s) =
         (pending s)(nextHandle s \<mapsto> \<lparr>t_delay = M, t_callback = Recheck r\<rparr>)
       \<and> activeTimers (scheduleTimer_with M r now s) (rid r) = Some (nextHandle s)
       \<and> (\<forall>now' oc. timer_expires_with M (nextHandle s) now' oc (scheduleTimer_with M r now s) =
            scheduleTimer_with M r now'
              (clearTimeout (nextHandle s) (scheduleTimer_with M r now s))))
    \<and> length (fst (chain_with M r now lates s))
         \<le> nat \<lceil>real_of_int (remindAt r - now) / real_of_int M\<rceil>
    \<and> (\<forall>r' now' s'. remindAt r' - now' = 13 \<longrightarrow> fst (chain_with 5 r' now' [] s') = [5, 5, 3])"
proof -
  have a: "remindAt r - now \<le> 0 \<longrightarrow>
       pending (scheduleTimer_with M r now s) = pending s
       \<and> activeTimers (scheduleTimer_with M r now s) (rid r) = None
       \<and> (\<forall>x \<in> set (loadReminders (scheduleTimer_with M r now s)). rid x \<noteq> rid r)
       \<and> trace (scheduleTimer_with M r now s) = trace s
       \<and> fst (chain_with M r now lates s) = []"
    by (simp add: chain_with_expired scheduleTimer_with_expired loadReminders_activeTimers_delete
        loadReminders_removeReminder)
      (simp add: activeTimers_delete_def removeReminder_def saveReminders_def)
  have b: "0 < remindAt r - now \<and> remindAt r - now \<le> M \<longrightarrow>
       pending (scheduleTimer_with M r now s) =
         (pending s)(nextHandle s \<mapsto> \<lparr>t_delay = remindAt r - now, t_callback = Deliver r\<rparr>)
       \<and> activeTimers (scheduleTimer_with M r now s) (rid r) = Some (nextHandle s)
       \<and> fst (chain_with M r now lates s) = [remindAt r - now]"
    by (simp add: chain_with_terminal scheduleTimer_with_terminal)
  have c: "M < remindAt r - now \<longrightarrow>
       pending (scheduleTimer_with M r now s) =
         (pending s)(nextHandle s \<mapsto> \<lparr>t_delay = M, t_callback = Recheck r\<rparr>)
       \<and> activeTimers (scheduleTimer_with M r now s) (rid r) = Some (nextHandle s)
       \<and> (\<forall>now' oc. timer_expires_with M (nextHandle s) now' oc (scheduleTimer_with M r now s) =
            scheduleTimer_with M r now'
              (clearTimeout (nextHandle s) (scheduleTimer_with M r now s)))"
  proof
    assume "M < remindAt r - now"
    with assms have D: "0 < remindAt r - now" "M < remindAt r - now" by simp_all
    have p: "pending (scheduleTimer_with M r now s) (nextHandle s) =
        Some \<lparr>t_delay = M, t_callback = Recheck r\<rparr>"
      by (simp add: scheduleTimer_with_intermediate [OF D])
    show "pending (scheduleTimer_with M r now s) =
         (pending s)(nextHandle s \<mapsto> \<lparr>t_delay = M, t_callback = Recheck r\<rparr>)
       \<and> activeTimers (scheduleTimer_with M r now s) (rid r) = Some (nextHandle s)
       \<and> (\<forall>now' oc. timer_expires_with M (nextHandle s) now' oc (scheduleTimer_with M r now s) =
            scheduleTimer_with M r now'
              (clearTimeout (nextHandle s) (scheduleTimer_with M r now s)))"
      using timer_expires_with_recheck [OF p]
      by (simp add: scheduleTimer_with_intermediate [OF D])
  qed
  have d: "length (fst (chain_with M r now lates s))
         \<le> nat \<lceil>real_of_int (remindAt r - now) / real_of_int M\<rceil>"
    using assms by (rule chain_with_bound)
  have e: "\<forall>r' now' s'. remindAt r' - now' = 13 \<longrightarrow> fst (chain_with 5 r' now' [] s') = [5, 5, 3]"
    by (simp add: chain_13_5)
  from a b c d e show ?thesis by (intro conjI)
qed

theorem delay_chaining_witness:
  "(0::int) < 5 \<and> (5::int) \<le> 2147483647 \<and> remindAt remB - 0 = 13
   \<and> fst (chain_with 5 remB 0 [] s0) = [5, 5, 3]
   \<and> length (fst (chain_with 5 remB 0 [] s0)) \<le> 3
   \<and> pending (scheduleTimer_with 5 remB 0 s0) 0 = Some \<lparr>t_delay = 5, t_callback = Recheck remB\<rparr>"
proof -
  have h: "(0::int) < 5" "(5::int) \<le> 2147483647" by simp_all
  have r: "remindAt remB - 0 = 13" by (simp add: remB_def)
  have c: "nat \<lceil>real_of_int 13 / real_of_int 5\<rceil> = 3" by (simp add: ceiling_eq_iff)
  from delay_chaining [OF h, of remB 0 s0 "[]"] r c h show ?thesis
    by (simp add: s0_def)
qed


section \<open>Cancellation\<close>

lemma trace_finally_block: "trace (finally_block r s) = trace s"
  by (simp add: finally_block_def activeTimers_delete_def removeReminder_def saveReminders_def)

lemma timer_expires_deliver:
  "pending s h = Some t \<Longrightarrow> t_callback t = Deliver r \<Longrightarrow>
   timer_expires h now oc s = finally_block r (try_block r oc (clearTimeout h s))"
  by (simp add: timer_expires_def timer_expires_with_def timeout_callback_def)

lemma cancelReminder_found:
  assumes "r \<in> set (loadReminders s)" "guildId r = g" "rid r = i"
  shows "cancelReminder g i s =
          (True, removeReminder i
             (case activeTimers s i of
                None \<Rightarrow> s
              | Some h \<Rightarrow> activeTimers_delete i (clearTimeout h s)))"
proof -
  have "find (\<lambda>r. rid r = i) (getRemindersForGuild g s) \<noteq> None"
    using assms by (auto simp: find_None_iff getRemindersForGuild_def)
  then show ?thesis by (auto simp: cancelReminder_def)
qed


lemma loadReminders_clearTimeout: "loadReminders (clearTimeout h s) = loadReminders s"
  by (simp add: loadReminders_def clearTimeout_def)

lemma loadReminders_cancelReminder_found:
  assumes "r \<in> set (loadReminders s)" "guildId r = g" "rid r = i"
  shows "loadReminders (snd (cancelReminder g i s)) = filter (\<lambda>r. rid r \<noteq> i) (loadReminders s)"
  by (simp add: cancelReminder_found [OF assms] loadReminders_removeReminder
      loadReminders_activeTimers_delete loadReminders_clearTimeout split: option.splits)



lemma loadReminders_s_two_guilds:
  "loadReminders s_two_guilds = [remA, remA\<lparr>guildId := ''g2''\<rparr>, remB]"
  by (simp add: s_two_guilds_def s0_def loadReminders_def)




section \<open>Deletion is by id alone\<close>

text \<open>
  C10. \<^verbatim>\<open>removeReminder\<close> looks at the id only: the records left on file are those that
  were there with another id, in their order, whatever their guild. Hence, when two
  reminders of different guilds share an id, a cancellation in the guild of one succeeds
  and removes the other as well.
\<close>

theorem removeReminder_ignores_scope:
  "loadReminders (removeReminder i s) = filter (\<lambda>r. rid r \<noteq> i) (loadReminders s)
   \<and> (r1 \<in> set (loadReminders s) \<and> r2 \<in> set (loadReminders s)
        \<and> guildId r1 \<noteq> guildId r2 \<and> rid r1 = i \<and> rid r2 = i \<longrightarrow>
      fst (cancelReminder (guildId r1) i s)
      \<and> r1 \<notin> set (loadReminders (snd (cancelReminder (guildId r1) i s)))
      \<and> r2 \<notin> set (loadReminders (snd (cancelReminder (guildId r1) i s))))"
proof (intro conjI impI)
  show "loadReminders (removeReminder i s) = filter (\<lambda>r. rid r \<noteq> i) (loadReminders s)"
    by (rule loadReminders_removeReminder)
next
  assume a: "r1 \<in> set (loadReminders s) \<and> r2 \<in> set (loadReminders s)
        \<and> guildId r1 \<noteq> guildId r2 \<and> rid r1 = i \<and> rid r2 = i"
  then have r: "r1 \<in> set (loadReminders s)" "guildId r1 = guildId r1" "rid r1 = i" by simp_all
  show "fst (cancelReminder (guildId r1) i s)" by (simp add: cancelReminder_found [OF r])
  show "r1 \<notin> set (loadReminders (snd (cancelReminder (guildId r1) i s)))"
    using a by (simp add: loadReminders_cancelReminder_found [OF r])
  show "r2 \<notin> set (loadReminders (snd (cancelReminder (guildId r1) i s)))"
    using a by (simp add: loadReminders_cancelReminder_found [OF r])
qed

theorem removeReminder_ignores_scope_witness:
  "remA \<in> set (loadReminders s_two_guilds)
   \<and> remA\<lparr>guildId := ''g2''\<rparr> \<in> set (loadReminders s_two_guilds)
   \<and> guildId remA \<noteq> guildId (remA\<lparr>guildId := ''g2''\<rparr>)
   \<and> rid remA = ''0a0a0a0a'' \<and> rid (remA\<lparr>guildId := ''g2''\<rparr>) = ''0a0a0a0a''
   \<and> fst (cancelReminder ''g1'' ''0a0a0a0a'' s_two_guilds)
   \<and> remA\<lparr>guildId := ''g2''\<rparr> \<notin> set (loadReminders (snd (cancelReminder ''g1'' ''0a0a0a0a'' s_two_guilds)))
   \<and> loadReminders (removeReminder ''0a0a0a0a'' s_two_guilds) = [remB]"
proof -
  have h: "remA \<in> set (loadReminders s_two_guilds)
   \<and> remA\<lparr>guildId := ''g2''\<rparr> \<in> set (loadReminders s_two_guilds)
   \<and> guildId remA \<noteq> guildId (remA\<lparr>guildId := ''g2''\<rparr>)
   \<and> rid remA = ''0a0a0a0a'' \<and> rid (remA\<lparr>guildId := ''g2''\<rparr>) = ''0a0a0a0a''"
    by (simp add: loadReminders_s_two_guilds remA_def)
  have g: "guildId remA = ''g1''" by (simp add: remA_def)
  have flt: "filter (\<lambda>r. rid r \<noteq> ''0a0a0a0a'') (loadReminders s_two_guilds) = [remB]"
    by (simp add: loadReminders_s_two_guilds remA_def remB_def)
  note T = removeReminder_ignores_scope [of "''0a0a0a0a''" s_two_guilds remA
      "remA\<lparr>guildId := ''g2''\<rparr>"]
  note B = T [THEN conjunct2, THEN mp, OF h]
  have b1: "fst (cancelReminder ''g1'' ''0a0a0a0a'' s_two_guilds)"
    using B [THEN conjunct1] by (simp only: g)
  have b2: "remA\<lparr>guildId := ''g2''\<rparr>
      \<notin> set (loadReminders (snd (cancelReminder ''g1'' ''0a0a0a0a'' s_two_guilds)))"
    using B [THEN conjunct2, THEN conjunct2] by (simp only: g not_False_eq_True)
  have b3: "loadReminders (removeReminder ''0a0a0a0a'' s_two_guilds) = [remB]"
    using T [THEN conjunct1] flt by (simp only:)
  from h b1 b2 b3 show ?thesis by blast
qed

section \<open>Listing\<close>

lemma loadReminders_s_unsorted: "loadReminders s_unsorted = [remB, remA]"
  by (simp add: s_unsorted_def s0_def loadReminders_def)

text \<open>
  C2, as stated, fails: \<^verbatim>\<open>getReminders\<close> does not sort. With \<open>remB\<close> (due at 13) stored
  before \<open>remA\<close> (due at 7), both of guild \<open>g1\<close>, the listing at time 0 is \<open>remB, remA\<close>,
  which is not ascending in \<^verbatim>\<open>remindAt\<close>.
\<close>

theorem getReminders_unsorted_counterexample:
  "getReminders ''g1'' 0 s_unsorted = [remB, remA]
   \<and> \<not> sorted (map remindAt (getReminders ''g1'' 0 s_unsorted))"
  by (simp add: getReminders_def getRemindersForGuild_def loadReminders_s_unsorted
      remA_def remB_def)

text \<open>
  C2, amended. For every guild, time and state, \<^verbatim>\<open>getReminders\<close> returns exactly the stored
  reminders of that guild whose \<^verbatim>\<open>remindAt\<close> is later than now, never one of another guild,
  in the order in which the file holds them.
\<close>

theorem getReminders_store_order:
  "getReminders g now s = filter (\<lambda>r. guildId r = g \<and> now < remindAt r) (loadReminders s)
   \<and> (\<forall>r \<in> set (getReminders g now s).
         r \<in> set (loadReminders s) \<and> guildId r = g \<and> now < remindAt r)
   \<and> (\<forall>r \<in> set (loadReminders s).
         guildId r = g \<and> now < remindAt r \<longrightarrow> r \<in> set (getReminders g now s))"
  by (auto simp: getReminders_def getRemindersForGuild_def conj_commute)

theorem getReminders_store_order_witness:
  "getReminders ''g1'' 10 s_unsorted = [remB]
   \<and> remB \<in> set (loadReminders s_unsorted) \<and> guildId remB = ''g1'' \<and> 10 < remindAt remB"
proof -
  have f: "filter (\<lambda>r. guildId r = ''g1'' \<and> 10 < remindAt r) (loadReminders s_unsorted) = [remB]"
    by (simp add: loadReminders_s_unsorted remA_def remB_def)
  note T = getReminders_store_order [of "''g1''" 10 s_unsorted]
  have 1: "getReminders ''g1'' 10 s_unsorted = [remB]"
    using T [THEN conjunct1] f by (simp only:)
  have "remB \<in> set (getReminders ''g1'' 10 s_unsorted)" by (simp only: 1) simp
  with T [THEN conjunct2, THEN conjunct1] 
  have 2: "remB \<in> set (loadReminders s_unsorted) \<and> guildId remB = ''g1'' \<and> 10 < remindAt remB"
    by (rule bspec)
  from 1 2 show ?thesis by (rule conjI)
qed

section \<open>The terminal timeout\<close>

lemma pending_finally_block: "pending (finally_block r s) = pending s"
  by (simp add: finally_block_def activeTimers_delete_def removeReminder_def saveReminders_def)

lemma nextHandle_finally_block: "nextHandle (finally_block r s) = nextHandle s"
  by (simp add: finally_block_def activeTimers_delete_def removeReminder_def saveReminders_def)

lemma activeTimers_finally_block: "activeTimers (finally_block r s) (rid r) = None"
  by (simp add: finally_block_def activeTimers_delete_def)

lemma loadReminders_finally_block:
  "loadReminders (finally_block r s) = filter (\<lambda>x. rid x \<noteq> rid r) (loadReminders s)"
  by (simp add: finally_block_def loadReminders_activeTimers_delete loadReminders_removeReminder)

lemma loadReminders_try_block: "loadReminders (try_block r oc s) = loadReminders s"
  by (simp add: loadReminders_def try_block_def)

lemma attempts_try_block:
  "attempts r (trace (try_block r oc s)) = attempts r (trace s) + 1"
  by (cases oc) (simp_all add: attempts_def try_block_def)

lemma sends_try_block:
  "sends r (trace (try_block r oc s)) = sends r (trace s) + (if oc = SendOk \<or> (\<exists>m. oc = SendThrows m) then 1 else 0)"
  by (cases oc) (simp_all add: sends_def try_block_def)

text \<open>
  C4. When the host runs a timeout that carries the delivering callback of a reminder,
  whatever the awaited calls do: delivery is attempted exactly once (one fetch of the
  channel, at most one message, exactly one when sending succeeds); when the fetch, the
  building of the message or the send throws, the last event is the error line on the
  console with the id and the message; afterwards no record of that id is on file (the others are kept), the id has no
  handle in \<^verbatim>\<open>activeTimers\<close>, and the armed timeouts are those of before without the one
  that ran, so nothing is armed for a retry. The callback is taken to run in one piece.
\<close>

theorem terminal_timer_fires:
  assumes "pending s h = Some t" and "t_callback t = Deliver r"
  shows "attempts r (trace (timer_expires h now oc s)) = attempts r (trace s) + 1
    \<and> sends r (trace (timer_expires h now oc s)) \<le> sends r (trace s) + 1
    \<and> (oc = SendOk \<longrightarrow> sends r (trace (timer_expires h now oc s)) = sends r (trace s) + 1)
    \<and> (\<forall>m. oc = FetchThrows m \<or> oc = BuildThrows m \<or> oc = SendThrows m \<longrightarrow>
          last (trace (timer_expires h now oc s)) = ConsoleError (rid r) m)
    \<and> loadReminders (timer_expires h now oc s) = filter (\<lambda>x. rid x \<noteq> rid r) (loadReminders s)
    \<and> (\<forall>x \<in> set (loadReminders (timer_expires h now oc s)). rid x \<noteq> rid r)
    \<and> activeTimers (timer_expires h now oc s) (rid r) = None
    \<and> pending (timer_expires h now oc s) = (pending s)(h := None)
    \<and> nextHandle (timer_expires h now oc s) = nextHandle s"
proof -
  note eq = timer_expires_deliver [OF assms]
  have tr: "trace (clearTimeout h s) = trace s" by (simp add: clearTimeout_def)
  have 1: "attempts r (trace (timer_expires h now oc s)) = attempts r (trace s) + 1"
    by (simp add: eq trace_finally_block attempts_try_block tr)
  have 2: "sends r (trace (timer_expires h now oc s)) \<le> sends r (trace s) + 1"
    by (simp add: eq trace_finally_block sends_try_block tr)
  have 3: "oc = SendOk \<longrightarrow> sends r (trace (timer_expires h now oc s)) = sends r (trace s) + 1"
    by (simp add: eq trace_finally_block sends_try_block tr)
  have 4: "\<forall>m. oc = FetchThrows m \<or> oc = BuildThrows m \<or> oc = SendThrows m \<longrightarrow>
          last (trace (timer_expires h now oc s)) = ConsoleError (rid r) m"
    by (auto simp: eq trace_finally_block try_block_def)
  have 5: "loadReminders (timer_expires h now oc s) = filter (\<lambda>x. rid x \<noteq> rid r) (loadReminders s)"
    by (simp add: eq loadReminders_finally_block loadReminders_try_block loadReminders_clearTimeout)
  have 6: "\<forall>x \<in> set (loadReminders (timer_expires h now oc s)). rid x \<noteq> rid r"
    by (simp add: 5)
  have 7: "activeTimers (timer_expires h now oc s) (rid r) = None"
    by (simp add: eq activeTimers_finally_block)
  have 8: "pending (timer_expires h now oc s) = (pending s)(h := None)"
    by (simp add: eq pending_finally_block try_block_def clearTimeout_def)
  have 9: "nextHandle (timer_expires h now oc s) = nextHandle s"
    by (simp add: eq nextHandle_finally_block try_block_def clearTimeout_def)
  from 1 2 3 4 5 6 7 8 9 show ?thesis by (intro conjI)
qed

theorem terminal_timer_fires_witness:
  "pending s_armed 2 = Some \<lparr>t_delay = 3, t_callback = Deliver remB\<rparr>
   \<and> t_callback \<lparr>t_delay = 3, t_callback = Deliver remB\<rparr> = Deliver remB
   \<and> attempts remB (trace (timer_expires 2 13 (SendThrows ''Missing Access'') s_armed)) = 1
   \<and> last (trace (timer_expires 2 13 (SendThrows ''Missing Access'') s_armed))
        = ConsoleError ''1b9d6bcd'' ''Missing Access''
   \<and> loadReminders (timer_expires 2 13 (SendThrows ''Missing Access'') s_armed) = [remA]
   \<and> activeTimers (timer_expires 2 13 (SendThrows ''Missing Access'') s_armed) ''1b9d6bcd'' = None
   \<and> pending (timer_expires 2 13 (SendThrows ''Missing Access'') s_armed) 2 = None"
proof -
  have p: "pending s_armed 2 = Some \<lparr>t_delay = 3, t_callback = Deliver remB\<rparr>"
    by (simp add: s_armed_def s0_def)
  have c: "t_callback \<lparr>t_delay = 3, t_callback = Deliver remB\<rparr> = Deliver remB" by simp
  have i: "rid remB = ''1b9d6bcd''" by (simp add: remB_def)
  have a0: "attempts remB (trace s_armed) = 0" by (simp add: s_armed_def s0_def attempts_def)
  have f: "filter (\<lambda>x. rid x \<noteq> rid remB) (loadReminders s_armed) = [remA]"
    by (simp add: s_armed_def s0_def loadReminders_def remA_def remB_def)
  note T = terminal_timer_fires [OF p c, of 13 "SendThrows ''Missing Access''"]
  have 1: "attempts remB (trace (timer_expires 2 13 (SendThrows ''Missing Access'') s_armed)) = 1"
    using T [THEN conjunct1] a0 by simp
  have 2: "last (trace (timer_expires 2 13 (SendThrows ''Missing Access'') s_armed))
        = ConsoleError ''1b9d6bcd'' ''Missing Access''"
    using T [THEN conjunct2, THEN conjunct2, THEN conjunct2, THEN conjunct1, THEN spec,
        of "''Missing Access''"] i by simp
  have 3: "loadReminders (timer_expires 2 13 (SendThrows ''Missing Access'') s_armed) = [remA]"
    using T [THEN conjunct2, THEN conjunct2, THEN conjunct2, THEN conjunct2, THEN conjunct1] f
    by (simp only:)
  have 4: "activeTimers (timer_expires 2 13 (SendThrows ''Missing Access'') s_armed) ''1b9d6bcd'' = None"
    using T [THEN conjunct2, THEN conjunct2, THEN conjunct2, THEN conjunct2, THEN conjunct2,
        THEN conjunct2, THEN conjunct1] i by (simp only:)
  have 5: "pending (timer_expires 2 13 (SendThrows ''Missing Access'') s_armed) 2 = None"
    using T [THEN conjunct2, THEN conjunct2, THEN conjunct2, THEN conjunct2, THEN conjunct2,
        THEN conjunct2, THEN conjunct2, THEN conjunct1] by simp
  from p c 1 2 3 4 5 show ?thesis by (intro conjI)
qed

section \<open>Recovery at startup\<close>

lemma scheduleTimer_future:
  assumes "now < remindAt r"
  shows "scheduleTimer r now s =
     s\<lparr>pending := (pending s)(nextHandle s \<mapsto>
          \<lparr>t_delay = min (remindAt r - now) MAX_DELAY,
           t_callback = (if MAX_DELAY < remindAt r - now then Recheck r else Deliver r)\<rparr>),
       nextHandle := Suc (nextHandle s),
       activeTimers := (activeTimers s)(rid r \<mapsto> nextHandle s)\<rparr>"
proof (cases "MAX_DELAY < remindAt r - now")
  case True
  with assms show ?thesis
    by (simp add: scheduleTimer_def scheduleTimer_with_intermediate min_def)
next
  case False
  with assms show ?thesis
    by (simp add: scheduleTimer_def scheduleTimer_with_terminal min_def)
qed

lemma loadReminders_scheduleTimer_future:
  "now < remindAt r \<Longrightarrow> loadReminders (scheduleTimer r now s) = loadReminders s"
  by (simp add: scheduleTimer_future loadReminders_def)

















lemma loadReminders_s_restart: "loadReminders s_restart = [remA, remB]"
  by (simp add: s_restart_def s0_def loadReminders_def)




section \<open>Recovery from a corrupt file\<close>

lemma JSON_parse_Garbage: "Garbage \<in> set cs \<Longrightarrow> JSON_parse cs = None"
  by (induction cs rule: JSON_parse.induct) (auto split: option.splits)

lemma restoreReminders_empty:
  "loadReminders s = [] \<Longrightarrow>
   snd (restoreReminders now ticks s) = s\<lparr>trace := trace s @ [ConsoleLog 0 0]\<rparr>"
  by (simp add: restoreReminders_def getAllReminders_def)

text \<open>
  C7, as stated, fails: the file is parsed as a whole. With a piece that is not JSON
  between the records \<open>remA\<close> and \<open>remB\<close>, recovery at time 10 restores nothing and removes
  nothing, although \<open>remB\<close> is well-formed and due later: it arms no timeout, reports 0 and
  0, and says nothing of the corrupt piece.
\<close>

theorem restoreReminders_corrupt_counterexample:
  "snd (restoreReminders 10 [] s_corrupt) = s_corrupt\<lparr>trace := [ConsoleLog 0 0]\<rparr>
   \<and> REMINDERS_FILE s_corrupt = Some [Rec remA, Garbage, Rec remB]
   \<and> 10 < remindAt remB
   \<and> nextHandle (snd (restoreReminders 10 [] s_corrupt)) = 0
   \<and> pending (snd (restoreReminders 10 [] s_corrupt)) 0 = None
   \<and> trace (snd (restoreReminders 10 [] s_corrupt)) = [ConsoleLog 0 0]"
proof -
  have l: "loadReminders s_corrupt = []"
    by (simp add: loadReminders_def s_corrupt_def s0_def)
  have e: "snd (restoreReminders 10 [] s_corrupt) = s_corrupt\<lparr>trace := [ConsoleLog 0 0]\<rparr>"
    by (simp add: restoreReminders_empty [OF l]) (simp add: s_corrupt_def s0_def)
  show ?thesis
    by (simp only: e) (simp add: s_corrupt_def s0_def remB_def)
qed

text \<open>
  C7, amended. When the file is missing, or any piece of it is not JSON, the file reads
  as the empty array: recovery raises nothing, arms nothing, leaves the file as it is and
  reports 0 restored and 0 expired. No record of such a file is recovered.
\<close>

theorem restoreReminders_unreadable_file:
  "(REMINDERS_FILE s = None \<or> (\<exists>cs. REMINDERS_FILE s = Some cs \<and> Garbage \<in> set cs)) \<longrightarrow>
     loadReminders s = []
     \<and> snd (restoreReminders now ticks s) = s\<lparr>trace := trace s @ [ConsoleLog 0 0]\<rparr>"
proof
  assume "REMINDERS_FILE s = None \<or> (\<exists>cs. REMINDERS_FILE s = Some cs \<and> Garbage \<in> set cs)"
  then have l: "loadReminders s = []"
    by (auto simp: loadReminders_def JSON_parse_Garbage)
  then show "loadReminders s = []
     \<and> snd (restoreReminders now ticks s) = s\<lparr>trace := trace s @ [ConsoleLog 0 0]\<rparr>"
    by (simp add: restoreReminders_empty)
qed

theorem restoreReminders_unreadable_file_witness:
  "(\<exists>cs. REMINDERS_FILE s_corrupt = Some cs \<and> Garbage \<in> set cs)
   \<and> loadReminders s_corrupt = []
   \<and> snd (restoreReminders 10 [] s_corrupt) = s_corrupt\<lparr>trace := trace s_corrupt @ [ConsoleLog 0 0]\<rparr>"
proof -
  have h: "\<exists>cs. REMINDERS_FILE s_corrupt = Some cs \<and> Garbage \<in> set cs"
    by (simp add: s_corrupt_def s0_def)
  from restoreReminders_unreadable_file [of s_corrupt 10 "[]"] h show ?thesis by blast
qed

section \<open>Registration\<close>

lemma addReminder_past:
  assumes "remindAt opts \<le> now"
  shows "addReminder opts uuid now s =
     (take 8 uuid,
      activeTimers_delete (take 8 uuid) (removeReminder (take 8 uuid)
        (storage_addReminder \<lparr>guildId = guildId opts, channelId = channelId opts,
            rtype = rtype opts, deadline = deadline opts, remindAt = remindAt opts,
            label = label opts, emoji = emoji opts, rid = take 8 uuid\<rparr> s)))"
  using assms
  by (simp add: addReminder_def Let_def scheduleTimer_def scheduleTimer_with_expired)

lemma loadReminders_storage_addReminder:
  "loadReminders (storage_addReminder r s) = loadReminders s @ [r]"
  by (simp add: storage_addReminder_def loadReminders_saveReminders)

lemma addReminder_future:
  assumes "now < remindAt opts"
  shows "loadReminders (snd (addReminder opts uuid now s)) =
     loadReminders s @ [\<lparr>guildId = guildId opts, channelId = channelId opts,
            rtype = rtype opts, deadline = deadline opts, remindAt = remindAt opts,
            label = label opts, emoji = emoji opts, rid = take 8 uuid\<rparr>]"
  using assms
  by (simp add: addReminder_def Let_def loadReminders_scheduleTimer_future
      loadReminders_storage_addReminder)

text \<open>
  C1, as stated, fails for the scheduler's \<^verbatim>\<open>addReminder\<close>, which validates nothing. Called
  at time 10 for a reminder due at 7, it raises no error and returns the new id; the record
  is written and then removed by id, so that a stored reminder of the same id (\<open>remB\<close>) is
  lost with it, and a file that did not exist now holds the empty array.
\<close>

theorem addReminder_past_counterexample:
  "remindAt opts_at7 \<le> 10
   \<and> fst (addReminder opts_at7 uuid1 10 s_restart) = ''1b9d6bcd''
   \<and> loadReminders s_restart = [remA, remB]
   \<and> loadReminders (snd (addReminder opts_at7 uuid1 10 s_restart)) = [remA]
   \<and> REMINDERS_FILE s0 = None
   \<and> REMINDERS_FILE (snd (addReminder opts_at7 uuid1 10 s0)) = Some []"
proof -
  have p: "remindAt opts_at7 \<le> 10" by (simp add: opts_at7_def)
  have u: "take 8 uuid1 = ''1b9d6bcd''" by (simp add: uuid1_def)
  have l0: "loadReminders s0 = []" by (simp add: loadReminders_def s0_def)
  have 1: "loadReminders (snd (addReminder opts_at7 uuid1 10 s_restart)) = [remA]"
    by (simp add: addReminder_past [OF p] u loadReminders_activeTimers_delete
        loadReminders_removeReminder loadReminders_storage_addReminder loadReminders_s_restart
        remA_def remB_def)
  have 2: "REMINDERS_FILE (snd (addReminder opts_at7 uuid1 10 s0)) = Some []"
    by (simp add: addReminder_past [OF p] u activeTimers_delete_def removeReminder_def
        saveReminders_def loadReminders_storage_addReminder JSON_stringify_def l0)
  have 3: "fst (addReminder opts_at7 uuid1 10 s_restart) = ''1b9d6bcd''"
    by (simp add: addReminder_past [OF p] u)
  have 4: "REMINDERS_FILE s0 = None" by (simp add: s0_def)
  from p 1 2 3 4 loadReminders_s_restart show ?thesis by (intro conjI)
qed

text \<open>
  C1, amended. The \<^verbatim>\<open>/remind\<close> command whose reminder time (the deadline less
  \<^verbatim>\<open>remind_before\<close> minutes, 60 by default) is a valid date that is not later than now is
  answered with \<^verbatim>\<open>That reminder time is in the past!\<close>; nothing is created and the whole
  state, the file included, stays as it was. The scheduler's \<^verbatim>\<open>addReminder\<close> itself does not
  validate: for a \<^verbatim>\<open>remindAt\<close> not later than now it returns the new id, arms no timeout,
  delivers nothing, and leaves on file the records that were there with another id.
\<close>

theorem remind_rejects_past:
  "(valid_time (dl - (case remind_before of None \<Rightarrow> 60 | Some n \<Rightarrow> n) * 60000)
      \<and> dl - (case remind_before of None \<Rightarrow> 60 | Some n \<Rightarrow> n) * 60000 \<le> now \<longrightarrow>
      remind_handler g ch notify t (Some dl) remind_before uuid now tick s = (Inr InThePast, s))
   \<and> (remindAt opts \<le> now \<longrightarrow>
      fst (addReminder opts uuid now s) = take 8 uuid
      \<and> loadReminders (snd (addReminder opts uuid now s)) =
          filter (\<lambda>r. rid r \<noteq> take 8 uuid) (loadReminders s)
      \<and> pending (snd (addReminder opts uuid now s)) = pending s
      \<and> nextHandle (snd (addReminder opts uuid now s)) = nextHandle s
      \<and> activeTimers (snd (addReminder opts uuid now s)) (take 8 uuid) = None
      \<and> trace (snd (addReminder opts uuid now s)) = trace s)"
proof (intro conjI impI)
  assume "valid_time (dl - (case remind_before of None \<Rightarrow> 60 | Some n \<Rightarrow> n) * 60000)
      \<and> dl - (case remind_before of None \<Rightarrow> 60 | Some n \<Rightarrow> n) * 60000 \<le> now"
  then show "remind_handler g ch notify t (Some dl) remind_before uuid now tick s
      = (Inr InThePast, s)"
    by (simp add: remind_handler_def Let_def)
next
  assume p: "remindAt opts \<le> now"
  show "fst (addReminder opts uuid now s) = take 8 uuid"
    by (simp add: addReminder_past [OF p])
  show "loadReminders (snd (addReminder opts uuid now s)) =
          filter (\<lambda>r. rid r \<noteq> take 8 uuid) (loadReminders s)"
    by (simp add: addReminder_past [OF p] loadReminders_activeTimers_delete
        loadReminders_removeReminder loadReminders_storage_addReminder)
  show "pending (snd (addReminder opts uuid now s)) = pending s"
    by (simp add: addReminder_past [OF p] activeTimers_delete_def removeReminder_def
        saveReminders_def storage_addReminder_def)
  show "nextHandle (snd (addReminder opts uuid now s)) = nextHandle s"
    by (simp add: addReminder_past [OF p] activeTimers_delete_def removeReminder_def
        saveReminders_def storage_addReminder_def)
  show "activeTimers (snd (addReminder opts uuid now s)) (take 8 uuid) = None"
    by (simp add: addReminder_past [OF p] activeTimers_delete_def)
  show "trace (snd (addReminder opts uuid now s)) = trace s"
    by (simp add: addReminder_past [OF p] activeTimers_delete_def removeReminder_def
        saveReminders_def storage_addReminder_def)
qed

theorem remind_rejects_past_witness:
  "valid_time (9 - (case Some 2 of None \<Rightarrow> 60 | Some n \<Rightarrow> n) * 60000)
   \<and> 9 - (case Some 2 of None \<Rightarrow> 60 | Some n \<Rightarrow> n) * 60000 \<le> (10::int)
   \<and> remind_handler ''g2'' ''c2'' None ''voting'' (Some 9) (Some 2) uuid1 10 1 s_restart
        = (Inr InThePast, s_restart)
   \<and> remindAt opts_at7 \<le> 10
   \<and> fst (addReminder opts_at7 uuid1 10 s_restart) = take 8 uuid1
   \<and> pending (snd (addReminder opts_at7 uuid1 10 s_restart)) = pending s_restart"
proof -
  have h: "valid_time (9 - (case Some 2 of None \<Rightarrow> 60 | Some n \<Rightarrow> n) * 60000)
   \<and> 9 - (case Some 2 of None \<Rightarrow> 60 | Some n \<Rightarrow> n) * 60000 \<le> (10::int)"
    by (simp add: valid_time_def)
  have p: "remindAt opts_at7 \<le> 10" by (simp add: opts_at7_def)
  note T = remind_rejects_past [of 9 "Some 2" 10 "''g2''" "''c2''" None "''voting''" uuid1
      1 s_restart opts_at7]
  from T [THEN conjunct1, THEN mp, OF h] T [THEN conjunct2, THEN mp, OF p] h p
  show ?thesis by blast
qed

section \<open>Identifiers\<close>

text \<open>
  C8, as stated, fails: the id is cut from a random UUID and checked against nothing.
  Two registrations whose UUIDs differ but agree on the first eight characters get the
  same id, and the file then holds two different reminders under it.
\<close>

theorem addReminder_collision_counterexample:
  "uuid1 \<noteq> uuid2
   \<and> fst (addReminder opts_at50 uuid1 0 s0) = ''1b9d6bcd''
   \<and> fst (addReminder opts_at7 uuid2 0 (snd (addReminder opts_at50 uuid1 0 s0))) = ''1b9d6bcd''
   \<and> map rid (loadReminders
        (snd (addReminder opts_at7 uuid2 0 (snd (addReminder opts_at50 uuid1 0 s0)))))
       = [''1b9d6bcd'', ''1b9d6bcd'']
   \<and> map remindAt (loadReminders
        (snd (addReminder opts_at7 uuid2 0 (snd (addReminder opts_at50 uuid1 0 s0)))))
       = [50, 7]"
proof -
  have u: "take 8 uuid1 = ''1b9d6bcd''" "take 8 uuid2 = ''1b9d6bcd''" "uuid1 \<noteq> uuid2"
    by (simp_all add: uuid1_def uuid2_def)
  have f: "(0::int) < remindAt opts_at50" "(0::int) < remindAt opts_at7"
    by (simp_all add: opts_at50_def opts_at7_def)
  have l0: "loadReminders s0 = []" by (simp add: loadReminders_def s0_def)
  have 1: "fst (addReminder opts_at50 uuid1 0 s0) = ''1b9d6bcd''"
    by (simp add: addReminder_def Let_def u)
  have 2: "fst (addReminder opts_at7 uuid2 0 (snd (addReminder opts_at50 uuid1 0 s0)))
      = ''1b9d6bcd''"
    by (simp add: addReminder_def [of opts_at7] Let_def u)
  have 3: "loadReminders
        (snd (addReminder opts_at7 uuid2 0 (snd (addReminder opts_at50 uuid1 0 s0)))) =
      [\<lparr>guildId = guildId opts_at50, channelId = channelId opts_at50,
            rtype = rtype opts_at50, deadline = deadline opts_at50,
            remindAt = remindAt opts_at50,
            label = label opts_at50, emoji = emoji opts_at50, rid = ''1b9d6bcd''\<rparr>,
       \<lparr>guildId = guildId opts_at7, channelId = channelId opts_at7,
            rtype = rtype opts_at7, deadline = deadline opts_at7,
            remindAt = remindAt opts_at7,
            label = label opts_at7, emoji = emoji opts_at7, rid = ''1b9d6bcd''\<rparr>]"
    by (simp add: addReminder_future [OF f(2)] addReminder_future [OF f(1)] l0 u)
  have 4: "map rid (loadReminders
        (snd (addReminder opts_at7 uuid2 0 (snd (addReminder opts_at50 uuid1 0 s0)))))
       = [''1b9d6bcd'', ''1b9d6bcd'']"
    by (simp only: 3) simp
  have 5: "map remindAt (loadReminders
        (snd (addReminder opts_at7 uuid2 0 (snd (addReminder opts_at50 uuid1 0 s0)))))
       = [50, 7]"
    by (simp only: 3) (simp add: opts_at50_def opts_at7_def)
  from u(3) 1 2 4 5 show ?thesis by (intro conjI)
qed

text \<open>
  C8, amended. The id of a new reminder is the first eight characters of the UUID drawn
  for it, and a reminder due later than now is appended to the file under that id,
  whatever the file holds. Two registrations get different ids exactly when their UUIDs
  differ within the first eight characters.
\<close>

theorem addReminder_id:
  "fst (addReminder opts uuid now s) = take 8 uuid
   \<and> (now < remindAt opts \<longrightarrow>
        loadReminders (snd (addReminder opts uuid now s)) =
          loadReminders s @ [\<lparr>guildId = guildId opts, channelId = channelId opts,
            rtype = rtype opts, deadline = deadline opts, remindAt = remindAt opts,
            label = label opts, emoji = emoji opts, rid = take 8 uuid\<rparr>])
   \<and> (fst (addReminder opts uuid now s) \<noteq> fst (addReminder opts' uuid' now' s')
        \<longleftrightarrow> take 8 uuid \<noteq> take 8 uuid')"
proof -
  have 1: "fst (addReminder opts uuid now s) = take 8 uuid" for opts uuid now s
    by (simp add: addReminder_def Let_def)
  show ?thesis by (simp add: 1 addReminder_future)
qed

theorem addReminder_id_witness:
  "(0::int) < remindAt opts_at50
   \<and> fst (addReminder opts_at50 uuid1 0 s0) = ''1b9d6bcd''
   \<and> map rid (loadReminders (snd (addReminder opts_at50 uuid1 0 s0))) = [''1b9d6bcd'']
   \<and> take 8 uuid1 = take 8 uuid2
   \<and> fst (addReminder opts_at50 uuid1 0 s0) = fst (addReminder opts_at7 uuid2 5 s_restart)"
proof -
  have f: "(0::int) < remindAt opts_at50" by (simp add: opts_at50_def)
  have u: "take 8 uuid1 = ''1b9d6bcd''" "take 8 uuid2 = ''1b9d6bcd''"
    by (simp_all add: uuid1_def uuid2_def)
  have l0: "loadReminders s0 = []" by (simp add: loadReminders_def s0_def)
  note T = addReminder_id [of opts_at50 uuid1 0 s0 opts_at7 uuid2 5 s_restart]
  have 1: "fst (addReminder opts_at50 uuid1 0 s0) = ''1b9d6bcd''"
    using T [THEN conjunct1] u by (simp only:)
  have 2: "map rid (loadReminders (snd (addReminder opts_at50 uuid1 0 s0))) = [''1b9d6bcd'']"
    using T [THEN conjunct2, THEN conjunct1, THEN mp, OF f] l0 u by simp
  have 3: "take 8 uuid1 = take 8 uuid2" by (simp only: u)
  have 4: "fst (addReminder opts_at50 uuid1 0 s0) = fst (addReminder opts_at7 uuid2 5 s_restart)"
    using T [THEN conjunct2, THEN conjunct2] 3 by blast
  from f 1 2 3 4 show ?thesis by (intro conjI)
qed

end
